theory Spec2Isabelle
  imports Complex_Main "HOL-Library.Code_Target_Nat"
begin

section \<open>The cart and catalog module of HisChildren (src/js/cart.js)\<close>

text \<open>
  The module keeps a shopping cart in the browser's \<^verbatim>\<open>localStorage\<close>, computes order
  totals, and looks products and collections up in two plain objects. This theory
  embeds the functions of \<^verbatim>\<open>src/js/cart.js\<close> (and, further down, of its second copy
  \<^verbatim>\<open>src/unnamed/part_000\<close>) as HOL functions, one definition per source function,
  under the source's name.

  Conventions of the embedding:
  \<^item> A JavaScript number is a rational (\<^typ>\<open>rat\<close>), with exact arithmetic: binary
    rounding, \<^verbatim>\<open>NaN\<close> and the infinities are outside the model, except for the one
    division of the module, whose result is a \<^verbatim>\<open>js_number\<close>. A quantity is an
    \<^typ>\<open>int\<close>.
  \<^item> A property that is a number or \<^verbatim>\<open>null\<close>/\<^verbatim>\<open>undefined\<close> (a product's
    \<^verbatim>\<open>salePrice\<close>) is a \<^typ>\<open>rat option\<close>; \<open>None\<close> is the absent value.
  \<^item> The objects of the module are records. Field names carry the record's prefix
    (\<open>prod_\<close>, \<open>item_\<close>, \<open>tot_\<close>, \<open>order_\<close>, \<open>coll_\<close>), since several objects share property names.
\<close>

subsection \<open>JavaScript values and truthiness\<close>

text \<open>
  The values an expression such as \<^verbatim>\<open>product.salePrice && product.salePrice < product.price\<close>
  can produce: \<^verbatim>\<open>a && b\<close> is \<^verbatim>\<open>a\<close> itself when \<^verbatim>\<open>a\<close> is falsy, so the result is not
  always a boolean.
\<close>

datatype js_value = JNull | JNumber rat | JBoolean bool

fun truthy :: "js_value \<Rightarrow> bool" where
  "truthy JNull = False"
| "truthy (JNumber n) = (n \<noteq> 0)"
| "truthy (JBoolean b) = b"

text \<open>The result of the module's one division: a finite number, or \<^verbatim>\<open>Infinity\<close> when a
  positive number is divided by zero.\<close>

datatype js_number = Finite rat | Infinity

text \<open>\<^verbatim>\<open>Math.round\<close>: the nearest integer, a tie going up.\<close>

definition Math_round :: "rat \<Rightarrow> rat" where
  "Math_round x = of_int \<lfloor>x + 1 / 2\<rfloor>"

subsection \<open>Products\<close>

record product =
  prod_id :: string
  prod_name :: string
  prod_price :: rat
  prod_salePrice :: "rat option"
  prod_collection :: string
  prod_collectionSlug :: string
  prod_image :: string
  prod_shortDescription :: string
  prod_longDescription :: string
  prod_featured :: "bool option"

text \<open>
  \<^verbatim>\<open>function isOnSale(product) { return product.salePrice && product.salePrice < product.price; }\<close>
  A \<^verbatim>\<open>salePrice\<close> of \<^verbatim>\<open>null\<close> or \<^verbatim>\<open>0\<close> is falsy and is returned as it is;
  otherwise the comparison is returned.
\<close>

definition isOnSale :: "product \<Rightarrow> js_value" where
  "isOnSale product =
     (case prod_salePrice product of
        None \<Rightarrow> JNull
      | Some sp \<Rightarrow> if sp = 0 then JNumber 0 else JBoolean (sp < prod_price product))"

text \<open>\<^verbatim>\<open>return isOnSale(product) ? product.salePrice : product.price;\<close>\<close>

definition getEffectivePrice :: "product \<Rightarrow> rat option" where
  "getEffectivePrice product =
     (if truthy (isOnSale product) then prod_salePrice product else Some (prod_price product))"

text \<open>
  \<^verbatim>\<open>if (!salePrice || salePrice >= originalPrice) return 0;
  return Math.round(((originalPrice - salePrice) / originalPrice) * 100);\<close>
  Past the guard \<^verbatim>\<open>originalPrice - salePrice\<close> is positive, so a zero \<^verbatim>\<open>originalPrice\<close>
  makes the quotient \<^verbatim>\<open>Infinity\<close>, which \<^verbatim>\<open>Math.round\<close> returns unchanged.
\<close>

definition calculatePercentOff :: "rat \<Rightarrow> rat option \<Rightarrow> js_number" where
  "calculatePercentOff originalPrice salePrice =
     (case salePrice of
        None \<Rightarrow> Finite 0
      | Some sp \<Rightarrow>
          if sp = 0 \<or> sp \<ge> originalPrice then Finite 0
          else if originalPrice = 0 then Infinity
          else Finite (Math_round (((originalPrice - sp) / originalPrice) * 100)))"

subsection \<open>The browser: localStorage and the cart-count elements\<close>

text \<open>
  A slot of \<^verbatim>\<open>localStorage\<close> holds JSON text. The model keeps the value the text
  denotes: \<open>Stored v\<close> is the text \<^verbatim>\<open>JSON.stringify(v)\<close>, which \<^verbatim>\<open>JSON.parse\<close> reads
  back as \<open>v\<close>; \<open>Corrupt\<close> is any text that \<^verbatim>\<open>JSON.parse\<close> rejects (or the empty
  string); \<open>Absent\<close> is a key that is not set. Text that parses to something other
  than a list of line-items (an order, in the order slot) is outside the model.
\<close>

datatype 'a slot = Absent | Corrupt | Stored 'a

text \<open>The line-item \<^verbatim>\<open>addItem\<close> pushes, the object \<^verbatim>\<open>getTotals\<close> returns, and the order
  \<^verbatim>\<open>saveOrder\<close> builds.\<close>

record item =
  item_id :: string
  item_name :: string
  item_price :: rat
  item_originalPrice :: rat
  item_salePrice :: "rat option"
  item_image :: string
  item_collection :: string
  item_quantity :: int

record totals =
  tot_subtotal :: rat
  tot_shipping :: rat
  tot_total :: rat
  tot_itemCount :: int

record order =
  orderNumber :: string
  order_items :: "item list"
  order_totals :: totals
  order_date :: string

text \<open>
  The state the \<^verbatim>\<open>Cart\<close> object reads and writes: the slot under \<^verbatim>\<open>STORAGE_KEY\<close>
  (\<^verbatim>\<open>'hischildren_cart'\<close>), the slot under \<^verbatim>\<open>ORDER_KEY\<close> (\<^verbatim>\<open>'hischildren_last_order'\<close>),
  whether \<^verbatim>\<open>localStorage.setItem\<close> succeeds (it throws when the quota is exceeded or
  storage is disabled; reading and removing do not throw), and the \<^verbatim>\<open>textContent\<close> of
  the elements \<^verbatim>\<open>document.querySelectorAll('.cart-count')\<close> finds: \<open>Some n\<close> is the
  text of the number \<open>n\<close>, \<open>None\<close> the empty text.
\<close>

record browser =
  cart_slot :: "item list slot"
  order_slot :: "order slot"
  writable :: bool
  cart_count_els :: "int option list"

subsection \<open>Library functions of the platform\<close>

text \<open>\<^verbatim>\<open>Array.prototype.findIndex\<close>: the first index whose element satisfies the
  predicate; \<open>None\<close> is JavaScript's \<open>-1\<close>.\<close>

fun findIndex :: "('a \<Rightarrow> bool) \<Rightarrow> 'a list \<Rightarrow> nat option" where
  "findIndex P [] = None"
| "findIndex P (x # xs) = (if P x then Some 0 else map_option Suc (findIndex P xs))"

text \<open>\<^verbatim>\<open>items.splice(index, 1)\<close>: the list without its element at \<open>index\<close>.\<close>

definition splice1 :: "nat \<Rightarrow> 'a list \<Rightarrow> 'a list" where
  "splice1 index xs = take index xs @ drop (Suc index) xs"

text \<open>\<^verbatim>\<open>n.toString()\<close> of a natural number: its decimal digits.\<close>

definition digit :: "nat \<Rightarrow> char" where
  "digit d = ''0123456789'' ! d"

function decimal :: "nat \<Rightarrow> string" where
  "decimal n = (if n < 10 then [digit n] else decimal (n div 10) @ [digit (n mod 10)])"
  by pat_completeness auto
termination
  by (relation "measure (\<lambda>n. n)") auto

declare decimal.simps [simp del]

text \<open>\<^verbatim>\<open>s.slice(-k)\<close>: the last \<open>k\<close> characters of \<open>s\<close>, all of it when it is shorter.\<close>

definition slice_last :: "nat \<Rightarrow> string \<Rightarrow> string" where
  "slice_last k s = drop (length s - k) s"

text \<open>
  \<^verbatim>\<open>x.toFixed(2)\<close>: the sign, then the integer nearest to \<open>100 * |x|\<close> (a tie going up)
  written with at least three digits and a point before the last two. (For \<open>|x|\<close> of
  \<open>10^21\<close> and more JavaScript switches to exponent notation; that range is not modelled.)
\<close>

definition toFixed2 :: "rat \<Rightarrow> string" where
  "toFixed2 x =
     (let n = nat \<lfloor>\<bar>x\<bar> * 100 + 1 / 2\<rfloor>;
          ds = decimal n;
          padded = replicate (3 - length ds) (CHR ''0'') @ ds
      in (if x < 0 then ''-'' else [])
           @ take (length padded - 2) padded @ ''.'' @ drop (length padded - 2) padded)"

subsection \<open>The Cart object\<close>

text \<open>
  \<^verbatim>\<open>getItems() { try { const items = localStorage.getItem(this.STORAGE_KEY);
       return items ? JSON.parse(items) : []; } catch (e) { ...; return []; } }\<close>
\<close>

definition getItems :: "browser \<Rightarrow> item list" where
  "getItems b = (case cart_slot b of Absent \<Rightarrow> [] | Corrupt \<Rightarrow> [] | Stored items \<Rightarrow> items)"

text \<open>
  \<^verbatim>\<open>getTotals()\<close>: the two \<^verbatim>\<open>reduce\<close> calls are left folds from 0;
  \<^verbatim>\<open>shipping = subtotal > 0 ? (subtotal >= 75 ? 0 : 8.95) : 0\<close>.
\<close>

definition getTotals :: "browser \<Rightarrow> totals" where
  "getTotals b =
     (let items = getItems b;
          subtotal = foldl (\<lambda>sum item. sum + item_price item * of_int (item_quantity item)) 0 items;
          shipping = (if subtotal > 0 then (if subtotal \<ge> 75 then 0 else 895 / 100) else 0);
          total = subtotal + shipping
      in \<lparr>tot_subtotal = subtotal, tot_shipping = shipping, tot_total = total,
          tot_itemCount = foldl (\<lambda>sum item. sum + item_quantity item) 0 items\<rparr>)"

text \<open>
  \<^verbatim>\<open>updateCartCount()\<close>: every \<^verbatim>\<open>.cart-count\<close> element gets
  \<^verbatim>\<open>itemCount > 0 ? itemCount : ''\<close> as its text.
\<close>

definition updateCartCount :: "browser \<Rightarrow> browser" where
  "updateCartCount b =
     (let itemCount = tot_itemCount (getTotals b)
      in b\<lparr>cart_count_els :=
             map (\<lambda>el. if itemCount > 0 then Some itemCount else None) (cart_count_els b)\<rparr>)"

text \<open>
  \<^verbatim>\<open>saveItems(items) { try { localStorage.setItem(this.STORAGE_KEY, JSON.stringify(items));
       this.updateCartCount(); } catch (e) { console.error(...); } }\<close>
  When \<^verbatim>\<open>setItem\<close> throws, the count is not refreshed and nothing changes.
\<close>

definition saveItems :: "browser \<Rightarrow> item list \<Rightarrow> browser" where
  "saveItems b items =
     (if writable b then updateCartCount (b\<lparr>cart_slot := Stored items\<rparr>) else b)"

text \<open>
  \<^verbatim>\<open>addItem(product, quantity = 1)\<close>: a call without the second argument is
  \<open>addItem b product 1\<close>. \<^verbatim>\<open>product.salePrice || product.price\<close> is the sale price
  unless that is \<^verbatim>\<open>null\<close> or 0. The function returns the list it saved; the model
  returns the browser after the call and that list.
\<close>

definition addItem :: "browser \<Rightarrow> product \<Rightarrow> int \<Rightarrow> browser \<times> item list" where
  "addItem b product quantity =
     (let items = getItems b;
          existingIndex = findIndex (\<lambda>item. item_id item = prod_id product) items;
          effectivePrice =
            (case prod_salePrice product of
               None \<Rightarrow> prod_price product
             | Some sp \<Rightarrow> if sp = 0 then prod_price product else sp);
          items' =
            (case existingIndex of
               Some i \<Rightarrow>
                 items[i := (items ! i)\<lparr>item_quantity := item_quantity (items ! i) + quantity\<rparr>]
             | None \<Rightarrow>
                 items @ [\<lparr>item_id = prod_id product,
                            item_name = prod_name product,
                            item_price = effectivePrice,
                            item_originalPrice = prod_price product,
                            item_salePrice = prod_salePrice product,
                            item_image = prod_image product,
                            item_collection = prod_collection product,
                            item_quantity = quantity\<rparr>])
      in (saveItems b items', items'))"

text \<open>
  \<^verbatim>\<open>updateQuantity(productId, quantity)\<close>: when the id is found, the row is spliced out
  for \<^verbatim>\<open>quantity <= 0\<close> and its quantity overwritten otherwise, and the list is saved;
  when it is not found, nothing is saved.
\<close>

definition updateQuantity :: "browser \<Rightarrow> string \<Rightarrow> int \<Rightarrow> browser \<times> item list" where
  "updateQuantity b productId quantity =
     (let items = getItems b;
          index = findIndex (\<lambda>item. item_id item = productId) items
      in (case index of
            Some i \<Rightarrow>
              (let items' =
                     (if quantity \<le> 0 then splice1 i items
                      else items[i := (items ! i)\<lparr>item_quantity := quantity\<rparr>])
               in (saveItems b items', items'))
          | None \<Rightarrow> (b, items)))"

text \<open>\<^verbatim>\<open>removeItem(productId)\<close>: filters the rows with another id, saves and returns them.\<close>

definition removeItem :: "browser \<Rightarrow> string \<Rightarrow> browser \<times> item list" where
  "removeItem b productId =
     (let items = filter (\<lambda>item. item_id item \<noteq> productId) (getItems b)
      in (saveItems b items, items))"

text \<open>\<^verbatim>\<open>clear() { localStorage.removeItem(this.STORAGE_KEY); this.updateCartCount(); }\<close>\<close>

definition clear :: "browser \<Rightarrow> browser" where
  "clear b = updateCartCount (b\<lparr>cart_slot := Absent\<rparr>)"

text \<open>
  \<^verbatim>\<open>saveOrder()\<close>: \<open>now\<close> is the value of \<^verbatim>\<open>Date.now()\<close> and \<open>isoDate\<close> the text of
  \<^verbatim>\<open>new Date().toISOString()\<close> at the call. The order is returned also when
  \<^verbatim>\<open>setItem\<close> throws.
\<close>

definition saveOrder :: "browser \<Rightarrow> nat \<Rightarrow> string \<Rightarrow> browser \<times> order" where
  "saveOrder b now isoDate =
     (let items = getItems b;
          totals = getTotals b;
          orderNumber = ''HC'' @ slice_last 8 (decimal now);
          order = \<lparr>orderNumber = orderNumber, order_items = items, order_totals = totals,
                   order_date = isoDate\<rparr>
      in ((if writable b then b\<lparr>order_slot := Stored order\<rparr> else b), order))"

text \<open>\<^verbatim>\<open>getLastOrder()\<close>: the parsed order, \<^verbatim>\<open>null\<close> when the key is not set or the text
  does not parse.\<close>

definition getLastOrder :: "browser \<Rightarrow> order option" where
  "getLastOrder b = (case order_slot b of Absent \<Rightarrow> None | Corrupt \<Rightarrow> None | Stored order \<Rightarrow> Some order)"

text \<open>\<^verbatim>\<open>formatPrice(price) { return '$' + price.toFixed(2); }\<close>\<close>

definition formatPrice :: "rat \<Rightarrow> string" where
  "formatPrice price = ''$'' @ toFixed2 price"

subsection \<open>The catalog: Products and Collections\<close>

text \<open>
  \<^verbatim>\<open>Products\<close> and \<^verbatim>\<open>Collections\<close> are plain objects keyed by id. A collection as
  \<^verbatim>\<open>loadProductData\<close> and \<^verbatim>\<open>initializeFallbackData\<close> build it carries the list
  \<^verbatim>\<open>products\<close> of its product ids.
\<close>

record collection =
  coll_id :: string
  coll_name :: string
  coll_description :: string
  coll_image :: string
  coll_shortDescription :: "string option"
  coll_products :: "string list"

record catalog =
  Products :: "string \<rightharpoonup> product"
  Collections :: "string \<rightharpoonup> collection"

text \<open>
  Reading \<^verbatim>\<open>obj[key]\<close> on a plain object finds the object's own property, else the
  property of that name on \<^verbatim>\<open>Object.prototype\<close>, else \<^verbatim>\<open>undefined\<close>. The map of a
  catalog holds the own properties; \<open>Object_prototype\<close> lists the names every plain
  object inherits (functions, and the prototype object itself under \<^verbatim>\<open>__proto__\<close>:
  all of them truthy, none of them with a property \<^verbatim>\<open>products\<close>).
\<close>

definition Object_prototype :: "string list" where
  "Object_prototype =
     [''constructor'', ''__defineGetter__'', ''__defineSetter__'', ''hasOwnProperty'',
      ''__lookupGetter__'', ''__lookupSetter__'', ''isPrototypeOf'', ''propertyIsEnumerable'',
      ''toString'', ''valueOf'', ''__proto__'', ''toLocaleString'']"

datatype 'a property = Undefined | Own 'a | Inherited string

definition lookup :: "(string \<rightharpoonup> 'a) \<Rightarrow> string \<Rightarrow> 'a property" where
  "lookup obj key =
     (case obj key of
        Some v \<Rightarrow> Own v
      | None \<Rightarrow> if key \<in> set Object_prototype then Inherited key else Undefined)"

text \<open>What a call can throw.\<close>

datatype js_error = TypeError

text \<open>\<^verbatim>\<open>function getProduct(id) { return Products[id] || null; }\<close> with \<open>None\<close> for
  \<^verbatim>\<open>null\<close>; an object or a function is truthy.\<close>

definition getProduct :: "catalog \<Rightarrow> string \<Rightarrow> product property option" where
  "getProduct cat id' =
     (case lookup (Products cat) id' of Undefined \<Rightarrow> None | Own p \<Rightarrow> Some (Own p)
      | Inherited k \<Rightarrow> Some (Inherited k))"

text \<open>\<^verbatim>\<open>function getCollection(id) { return Collections[id] || null; }\<close>\<close>

definition getCollection :: "catalog \<Rightarrow> string \<Rightarrow> collection property option" where
  "getCollection cat id' =
     (case lookup (Collections cat) id' of Undefined \<Rightarrow> None | Own c \<Rightarrow> Some (Own c)
      | Inherited k \<Rightarrow> Some (Inherited k))"

text \<open>
  \<^verbatim>\<open>function getCollectionProducts(collectionId) {
    const collection = Collections[collectionId];
    if (!collection) return [];
    return collection.products.map(id => Products[id]).filter(Boolean); }\<close>
  An inherited value passes the guard \<^verbatim>\<open>!collection\<close>; its \<^verbatim>\<open>products\<close> is
  \<^verbatim>\<open>undefined\<close>, and calling \<^verbatim>\<open>map\<close> on that throws a \<^verbatim>\<open>TypeError\<close>.
\<close>

definition getCollectionProducts :: "catalog \<Rightarrow> string \<Rightarrow> js_error + product property list" where
  "getCollectionProducts cat collectionId =
     (case lookup (Collections cat) collectionId of
        Undefined \<Rightarrow> Inr []
      | Own collection \<Rightarrow>
          Inr (filter (\<lambda>v. v \<noteq> Undefined)
                 (map (\<lambda>id'. lookup (Products cat) id') (coll_products collection)))
      | Inherited k \<Rightarrow> Inl TypeError)"

text \<open>The catalog \<^verbatim>\<open>initializeFallbackData\<close> installs when the fetch fails.\<close>

definition initializeFallbackData :: catalog where
  "initializeFallbackData =
     \<lparr>Products =
        [''heritage-block-set'' \<mapsto>
           \<lparr>prod_id = ''heritage-block-set'',
            prod_name = ''The Heritage Block Set'',
            prod_price = 68,
            prod_salePrice = None,
            prod_collection = ''Heirloom Wooden'',
            prod_collectionSlug = ''heirloom-wooden'',
            prod_image = ''images/heritage-block-set.jpg'',
            prod_shortDescription = ''Hand-sanded maple blocks in timeless shapes, crafted to be passed down through generations.'',
            prod_longDescription = ''Each block in this 24-piece set is cut from sustainably harvested maple and finished with natural beeswax.'',
            prod_featured = None\<rparr>],
      Collections =
        [''heirloom-wooden'' \<mapsto>
           \<lparr>coll_id = ''heirloom-wooden'',
            coll_name = ''Heirloom Wooden'',
            coll_description = ''Timeless wooden toys crafted to be treasured and passed down through generations.'',
            coll_image = ''images/collection-heirloom-wooden.jpg'',
            coll_shortDescription = None,
            coll_products = [''heritage-block-set'']\<rparr>]\<rparr>"

subsection \<open>Render helpers\<close>

text \<open>
  A template literal converts a number to text with JavaScript's number-to-string
  conversion; the render functions take that conversion as the parameter
  \<open>numToString\<close>. \<open>nl\<close> is the line break inside a template.
\<close>

definition nl :: string where
  "nl = [CHR 0x0A]"

definition show_price :: "(rat \<Rightarrow> string) \<Rightarrow> rat option \<Rightarrow> string" where
  "show_price numToString v = (case v of None \<Rightarrow> ''null'' | Some n \<Rightarrow> numToString n)"

definition show_number :: "(rat \<Rightarrow> string) \<Rightarrow> js_number \<Rightarrow> string" where
  "show_number numToString v = (case v of Finite n \<Rightarrow> numToString n | Infinity \<Rightarrow> ''Infinity'')"

text \<open>\<^verbatim>\<open>renderPriceHTML(product, showSaleLabel = true)\<close>\<close>

definition renderPriceHTML :: "(rat \<Rightarrow> string) \<Rightarrow> product \<Rightarrow> bool \<Rightarrow> string" where
  \<open>renderPriceHTML numToString product showSaleLabel =
     (if truthy (isOnSale product) then
        (let percentOff = calculatePercentOff (prod_price product) (prod_salePrice product)
         in nl
          @ ''      <span class="price-wrapper price-on-sale">'' @ nl
          @ ''        '' @ (if showSaleLabel then ''<span class="sale-badge">Sale</span>'' else [])
          @ nl
          @ ''        <span class="price-original">$'' @ numToString (prod_price product)
          @ ''</span>'' @ nl
          @ ''        <span class="price-sale">$'' @ show_price numToString (prod_salePrice product)
          @ ''</span>'' @ nl
          @ ''        <span class="price-percent-off">'' @ show_number numToString percentOff
          @ ''% off</span>'' @ nl
          @ ''      </span>'' @ nl
          @ ''    '')
      else ''<span class="price-wrapper">$'' @ numToString (prod_price product) @ ''</span>'')\<close>

text \<open>\<^verbatim>\<open>renderProductCard(product, basePath = '')\<close>\<close>

definition renderProductCard :: "(rat \<Rightarrow> string) \<Rightarrow> product \<Rightarrow> string \<Rightarrow> string" where
  \<open>renderProductCard numToString product basePath =
     (let priceHTML =
            (if truthy (isOnSale product) then
               ''<p class="product-card-price price-on-sale">'' @ nl
               @ ''        <span class="price-original">$'' @ numToString (prod_price product)
               @ ''</span>'' @ nl
               @ ''        <span class="price-sale">$''
               @ show_price numToString (prod_salePrice product) @ ''</span>'' @ nl
               @ ''        <span class="sale-badge">Sale</span>'' @ nl
               @ ''       </p>''
             else ''<p class="product-card-price">$'' @ numToString (prod_price product)
               @ ''</p>'')
      in nl
       @ ''    <a href="'' @ basePath @ ''products/'' @ prod_id product
       @ ''.html" class="product-card''
       @ (if truthy (isOnSale product) then '' product-on-sale'' else []) @ ''">'' @ nl
       @ ''      <div class="product-card-image">'' @ nl
       @ ''        <img src="'' @ basePath @ prod_image product @ ''" alt="'' @ prod_name product
       @ ''">'' @ nl
       @ ''      </div>'' @ nl
       @ ''      <div class="product-card-info">'' @ nl
       @ ''        <h3 class="product-card-name">'' @ prod_name product @ ''</h3>'' @ nl
       @ ''        '' @ priceHTML @ nl
       @ ''      </div>'' @ nl
       @ ''    </a>'' @ nl
       @ ''  '')\<close>

subsection \<open>The second copy of the module (src/unnamed/part_000)\<close>

text \<open>
  \<^verbatim>\<open>src/unnamed/part_000\<close> holds the same \<^verbatim>\<open>Cart\<close> object and the same helper functions
  as \<^verbatim>\<open>src/js/cart.js\<close>, over \<^verbatim>\<open>Products\<close> and \<^verbatim>\<open>Collections\<close> that are written
  inline as constants instead of being fetched. Its functions are embedded here from its
  own text, under the source's names with the suffix \<open>_part000\<close>, in the order of
  their dependencies: the helpers of lines 525 to 546, the \<^verbatim>\<open>Cart\<close> object of lines 6 to
  181, the lookups of lines 479 to 501 and the render functions of lines 554 to 595. The
  catalog is a parameter of the lookups, as above; the platform functions are shared.
\<close>

definition isOnSale_part000 :: "product \<Rightarrow> js_value" where
  "isOnSale_part000 product =
     (case prod_salePrice product of
        None \<Rightarrow> JNull
      | Some sp \<Rightarrow> if sp = 0 then JNumber 0 else JBoolean (sp < prod_price product))"

definition getEffectivePrice_part000 :: "product \<Rightarrow> rat option" where
  "getEffectivePrice_part000 product =
     (if truthy (isOnSale_part000 product) then prod_salePrice product else Some (prod_price product))"

definition calculatePercentOff_part000 :: "rat \<Rightarrow> rat option \<Rightarrow> js_number" where
  "calculatePercentOff_part000 originalPrice salePrice =
     (case salePrice of
        None \<Rightarrow> Finite 0
      | Some sp \<Rightarrow>
          if sp = 0 \<or> sp \<ge> originalPrice then Finite 0
          else if originalPrice = 0 then Infinity
          else Finite (Math_round (((originalPrice - sp) / originalPrice) * 100)))"

definition getItems_part000 :: "browser \<Rightarrow> item list" where
  "getItems_part000 b = (case cart_slot b of Absent \<Rightarrow> [] | Corrupt \<Rightarrow> [] | Stored items \<Rightarrow> items)"

definition getTotals_part000 :: "browser \<Rightarrow> totals" where
  "getTotals_part000 b =
     (let items = getItems_part000 b;
          subtotal = foldl (\<lambda>sum item. sum + item_price item * of_int (item_quantity item)) 0 items;
          shipping = (if subtotal > 0 then (if subtotal \<ge> 75 then 0 else 895 / 100) else 0);
          total = subtotal + shipping
      in \<lparr>tot_subtotal = subtotal, tot_shipping = shipping, tot_total = total,
          tot_itemCount = foldl (\<lambda>sum item. sum + item_quantity item) 0 items\<rparr>)"

definition updateCartCount_part000 :: "browser \<Rightarrow> browser" where
  "updateCartCount_part000 b =
     (let itemCount = tot_itemCount (getTotals_part000 b)
      in b\<lparr>cart_count_els :=
             map (\<lambda>el. if itemCount > 0 then Some itemCount else None) (cart_count_els b)\<rparr>)"

definition saveItems_part000 :: "browser \<Rightarrow> item list \<Rightarrow> browser" where
  "saveItems_part000 b items =
     (if writable b then updateCartCount_part000 (b\<lparr>cart_slot := Stored items\<rparr>) else b)"

definition addItem_part000 :: "browser \<Rightarrow> product \<Rightarrow> int \<Rightarrow> browser \<times> item list" where
  "addItem_part000 b product quantity =
     (let items = getItems_part000 b;
          existingIndex = findIndex (\<lambda>item. item_id item = prod_id product) items;
          effectivePrice =
            (case prod_salePrice product of
               None \<Rightarrow> prod_price product
             | Some sp \<Rightarrow> if sp = 0 then prod_price product else sp);
          items' =
            (case existingIndex of
               Some i \<Rightarrow>
                 items[i := (items ! i)\<lparr>item_quantity := item_quantity (items ! i) + quantity\<rparr>]
             | None \<Rightarrow>
                 items @ [\<lparr>item_id = prod_id product,
                            item_name = prod_name product,
                            item_price = effectivePrice,
                            item_originalPrice = prod_price product,
                            item_salePrice = prod_salePrice product,
                            item_image = prod_image product,
                            item_collection = prod_collection product,
                            item_quantity = quantity\<rparr>])
      in (saveItems_part000 b items', items'))"

definition updateQuantity_part000 :: "browser \<Rightarrow> string \<Rightarrow> int \<Rightarrow> browser \<times> item list" where
  "updateQuantity_part000 b productId quantity =
     (let items = getItems_part000 b;
          index = findIndex (\<lambda>item. item_id item = productId) items
      in (case index of
            Some i \<Rightarrow>
              (let items' =
                     (if quantity \<le> 0 then splice1 i items
                      else items[i := (items ! i)\<lparr>item_quantity := quantity\<rparr>])
               in (saveItems_part000 b items', items'))
          | None \<Rightarrow> (b, items)))"

definition removeItem_part000 :: "browser \<Rightarrow> string \<Rightarrow> browser \<times> item list" where
  "removeItem_part000 b productId =
     (let items = filter (\<lambda>item. item_id item \<noteq> productId) (getItems_part000 b)
      in (saveItems_part000 b items, items))"

definition clear_part000 :: "browser \<Rightarrow> browser" where
  "clear_part000 b = updateCartCount_part000 (b\<lparr>cart_slot := Absent\<rparr>)"

definition saveOrder_part000 :: "browser \<Rightarrow> nat \<Rightarrow> string \<Rightarrow> browser \<times> order" where
  "saveOrder_part000 b now isoDate =
     (let items = getItems_part000 b;
          totals = getTotals_part000 b;
          orderNumber = ''HC'' @ slice_last 8 (decimal now);
          order = \<lparr>orderNumber = orderNumber, order_items = items, order_totals = totals,
                   order_date = isoDate\<rparr>
      in ((if writable b then b\<lparr>order_slot := Stored order\<rparr> else b), order))"

definition getLastOrder_part000 :: "browser \<Rightarrow> order option" where
  "getLastOrder_part000 b = (case order_slot b of Absent \<Rightarrow> None | Corrupt \<Rightarrow> None | Stored order \<Rightarrow> Some order)"

definition formatPrice_part000 :: "rat \<Rightarrow> string" where
  "formatPrice_part000 price = ''$'' @ toFixed2 price"

definition getProduct_part000 :: "catalog \<Rightarrow> string \<Rightarrow> product property option" where
  "getProduct_part000 cat id' =
     (case lookup (Products cat) id' of Undefined \<Rightarrow> None | Own p \<Rightarrow> Some (Own p)
      | Inherited k \<Rightarrow> Some (Inherited k))"

definition getCollection_part000 :: "catalog \<Rightarrow> string \<Rightarrow> collection property option" where
  "getCollection_part000 cat id' =
     (case lookup (Collections cat) id' of Undefined \<Rightarrow> None | Own c \<Rightarrow> Some (Own c)
      | Inherited k \<Rightarrow> Some (Inherited k))"

definition getCollectionProducts_part000 :: "catalog \<Rightarrow> string \<Rightarrow> js_error + product property list" where
  "getCollectionProducts_part000 cat collectionId =
     (case lookup (Collections cat) collectionId of
        Undefined \<Rightarrow> Inr []
      | Own collection \<Rightarrow>
          Inr (filter (\<lambda>v. v \<noteq> Undefined)
                 (map (\<lambda>id'. lookup (Products cat) id') (coll_products collection)))
      | Inherited k \<Rightarrow> Inl TypeError)"

definition renderPriceHTML_part000 :: "(rat \<Rightarrow> string) \<Rightarrow> product \<Rightarrow> bool \<Rightarrow> string" where
  \<open>renderPriceHTML_part000 numToString product showSaleLabel =
     (if truthy (isOnSale_part000 product) then
        (let percentOff = calculatePercentOff_part000 (prod_price product) (prod_salePrice product)
         in nl
          @ ''      <span class="price-wrapper price-on-sale">'' @ nl
          @ ''        '' @ (if showSaleLabel then ''<span class="sale-badge">Sale</span>'' else [])
          @ nl
          @ ''        <span class="price-original">$'' @ numToString (prod_price product)
          @ ''</span>'' @ nl
          @ ''        <span class="price-sale">$'' @ show_price numToString (prod_salePrice product)
          @ ''</span>'' @ nl
          @ ''        <span class="price-percent-off">'' @ show_number numToString percentOff
          @ ''% off</span>'' @ nl
          @ ''      </span>'' @ nl
          @ ''    '')
      else ''<span class="price-wrapper">$'' @ numToString (prod_price product) @ ''</span>'')\<close>

definition renderProductCard_part000 :: "(rat \<Rightarrow> string) \<Rightarrow> product \<Rightarrow> string \<Rightarrow> string" where
  \<open>renderProductCard_part000 numToString product basePath =
     (let priceHTML =
            (if truthy (isOnSale_part000 product) then
               ''<p class="product-card-price price-on-sale">'' @ nl
               @ ''        <span class="price-original">$'' @ numToString (prod_price product)
               @ ''</span>'' @ nl
               @ ''        <span class="price-sale">$''
               @ show_price numToString (prod_salePrice product) @ ''</span>'' @ nl
               @ ''        <span class="sale-badge">Sale</span>'' @ nl
               @ ''       </p>''
             else ''<p class="product-card-price">$'' @ numToString (prod_price product)
               @ ''</p>'')
      in nl
       @ ''    <a href="'' @ basePath @ ''products/'' @ prod_id product
       @ ''.html" class="product-card''
       @ (if truthy (isOnSale_part000 product) then '' product-on-sale'' else []) @ ''">'' @ nl
       @ ''      <div class="product-card-image">'' @ nl
       @ ''        <img src="'' @ basePath @ prod_image product @ ''" alt="'' @ prod_name product
       @ ''">'' @ nl
       @ ''      </div>'' @ nl
       @ ''      <div class="product-card-info">'' @ nl
       @ ''        <h3 class="product-card-name">'' @ prod_name product @ ''</h3>'' @ nl
       @ ''        '' @ priceHTML @ nl
       @ ''      </div>'' @ nl
       @ ''    </a>'' @ nl
       @ ''  '')\<close>

subsection \<open>Sequences of cart operations\<close>

text \<open>
  The four mutating operations of the cart as data, and the browser after a sequence of
  them, for the claims that speak of every state the cart can reach.
\<close>

datatype cart_op =
    AddItem product int
  | UpdateQuantity string int
  | RemoveItem string
  | Clear

fun apply_op :: "browser \<Rightarrow> cart_op \<Rightarrow> browser" where
  "apply_op b (AddItem product quantity) = fst (addItem b product quantity)"
| "apply_op b (UpdateQuantity productId quantity) = fst (updateQuantity b productId quantity)"
| "apply_op b (RemoveItem productId) = fst (removeItem b productId)"
| "apply_op b Clear = clear b"

definition run :: "browser \<Rightarrow> cart_op list \<Rightarrow> browser" where
  "run b ops = foldl apply_op b ops"

subsection \<open>Sample inputs\<close>

text \<open>A browser with nothing stored, whose storage accepts writes, on a page with one
  cart-count element; and a product with a given id, base price and sale price.\<close>

definition fresh_browser :: browser where
  "fresh_browser =
     \<lparr>cart_slot = Absent, order_slot = Absent, writable = True, cart_count_els = [None]\<rparr>"

definition sample_product :: "string \<Rightarrow> rat \<Rightarrow> rat option \<Rightarrow> product" where
  "sample_product pid price salePrice =
     \<lparr>prod_id = pid, prod_name = ''Sample Toy'', prod_price = price, prod_salePrice = salePrice,
      prod_collection = ''Heirloom Wooden'', prod_collectionSlug = ''heirloom-wooden'',
      prod_image = ''images/sample-toy.jpg'', prod_shortDescription = ''A sample toy.'',
      prod_longDescription = ''A sample toy for the examples.'', prod_featured = None\<rparr>"

section \<open>Properties\<close>

subsection \<open>Auxiliary facts\<close>


lemma cart_slot_updateCartCount [simp]: "cart_slot (updateCartCount b) = cart_slot b"
  by (simp add: updateCartCount_def Let_def)

lemma order_slot_updateCartCount [simp]: "order_slot (updateCartCount b) = order_slot b"
  by (simp add: updateCartCount_def Let_def)

lemma writable_updateCartCount [simp]: "writable (updateCartCount b) = writable b"
  by (simp add: updateCartCount_def Let_def)

lemma getItems_updateCartCount [simp]: "getItems (updateCartCount b) = getItems b"
  by (simp add: getItems_def)

lemma getItems_saveItems: "writable b \<Longrightarrow> getItems (saveItems b items) = items"
  by (simp add: saveItems_def getItems_def)

lemma saveItems_not_writable: "\<not> writable b \<Longrightarrow> saveItems b items = b"
  by (simp add: saveItems_def)

lemma order_slot_saveItems [simp]: "order_slot (saveItems b items) = order_slot b"
  by (simp add: saveItems_def)

lemma writable_saveItems [simp]: "writable (saveItems b items) = writable b"
  by (simp add: saveItems_def)

lemma getItems_fresh_browser [simp]: "getItems fresh_browser = []"
  by (simp add: getItems_def fresh_browser_def)

lemma writable_fresh_browser [simp]: "writable fresh_browser"
  by (simp add: fresh_browser_def)

subsection \<open>Facts about findIndex, splice and the list updates of the cart\<close>

lemma findIndex_None_iff: "findIndex P xs = None \<longleftrightarrow> (\<forall>x \<in> set xs. \<not> P x)"
  by (induction xs) auto

lemma findIndex_Some:
  "findIndex P xs = Some i \<Longrightarrow> i < length xs \<and> P (xs ! i) \<and> (\<forall>j < i. \<not> P (xs ! j))"
proof (induction xs arbitrary: i)
  case Nil
  then show ?case by simp
next
  case (Cons x xs)
  show ?case
  proof (cases "P x")
    case True
    with Cons.prems show ?thesis by simp
  next
    case False
    with Cons.prems obtain k where k: "findIndex P xs = Some k" "i = Suc k"
      by auto
    from Cons.IH [OF k(1)] False k(2) show ?thesis
      by (auto simp: nth_Cons split: nat.splits)
  qed
qed

lemma findIndex_id_cases:
  "(\<exists>i. findIndex (\<lambda>item. item_id item = pid) xs = Some i) \<longleftrightarrow> pid \<in> item_id ` set xs"
proof -
  have "(\<exists>i. findIndex (\<lambda>item. item_id item = pid) xs = Some i)
          \<longleftrightarrow> findIndex (\<lambda>item. item_id item = pid) xs \<noteq> None"
    by auto
  also have "\<dots> \<longleftrightarrow> (\<exists>x \<in> set xs. item_id x = pid)"
    by (simp add: findIndex_None_iff)
  also have "\<dots> \<longleftrightarrow> pid \<in> item_id ` set xs"
    by auto
  finally show ?thesis .
qed

lemma map_id_update_quantity:
  "map item_id (xs[i := (xs ! i)\<lparr>item_quantity := q\<rparr>]) = map item_id xs"
  by (cases "i < length xs") (simp_all add: list_eq_iff_nth_eq nth_list_update)

lemma map_price_update_quantity:
  "map item_price (xs[i := (xs ! i)\<lparr>item_quantity := q\<rparr>]) = map item_price xs"
  by (cases "i < length xs") (simp_all add: list_eq_iff_nth_eq nth_list_update)

lemma map_originalPrice_update_quantity:
  "map item_originalPrice (xs[i := (xs ! i)\<lparr>item_quantity := q\<rparr>]) = map item_originalPrice xs"
  by (cases "i < length xs") (simp_all add: list_eq_iff_nth_eq nth_list_update)

lemma distinct_map_splice1: "distinct (map f xs) \<Longrightarrow> distinct (map f (splice1 i xs))"
proof (induction xs arbitrary: i)
  case Nil
  then show ?case by (simp add: splice1_def)
next
  case (Cons x xs)
  show ?case
  proof (cases i)
    case 0
    with Cons.prems show ?thesis by (simp add: splice1_def)
  next
    case (Suc k)
    have "set (splice1 k xs) \<subseteq> set xs"
      unfolding splice1_def using set_take_subset [of k xs] set_drop_subset [of "Suc k" xs]
      by auto
    with Cons.prems Cons.IH [of k] Suc show ?thesis
      by (auto simp: splice1_def)
  qed
qed

lemma splice1_first_match:
  assumes "distinct (map f xs)" and "findIndex (\<lambda>x. f x = a) xs = Some i"
  shows "splice1 i xs = filter (\<lambda>x. f x \<noteq> a) xs"
  using assms
proof (induction xs arbitrary: i)
  case Nil
  then show ?case by simp
next
  case (Cons x xs)
  show ?case
  proof (cases "f x = a")
    case True
    from Cons.prems True have "a \<notin> f ` set xs" by auto
    then have "\<forall>y \<in> set xs. f y \<noteq> a" by blast
    moreover from Cons.prems True have "i = 0" by simp
    ultimately show ?thesis using True by (simp add: splice1_def)
  next
    case False
    with Cons.prems obtain k where k: "findIndex (\<lambda>x. f x = a) xs = Some k" "i = Suc k"
      by auto
    from Cons.prems have "distinct (map f xs)" by simp
    from Cons.IH [OF this k(1)] False k(2) show ?thesis
      by (simp add: splice1_def)
  qed
qed

lemma update_first_match:
  assumes "distinct (map f xs)" and "findIndex (\<lambda>x. f x = a) xs = Some i"
    and "\<And>x. f (g x) = f x"
  shows "xs[i := g (xs ! i)] = map (\<lambda>x. if f x = a then g x else x) xs"
  using assms(1,2)
proof (induction xs arbitrary: i)
  case Nil
  then show ?case by simp
next
  case (Cons x xs)
  show ?case
  proof (cases "f x = a")
    case True
    from Cons.prems True have "a \<notin> f ` set xs" by auto
    then have no: "\<forall>y \<in> set xs. f y \<noteq> a" by blast
    from Cons.prems True have i: "i = 0" by simp
    from no have "map (\<lambda>x. if f x = a then g x else x) xs = xs"
      by (induction xs) auto
    with i True show ?thesis by simp
  next
    case False
    with Cons.prems obtain k where k: "findIndex (\<lambda>x. f x = a) xs = Some k" "i = Suc k"
      by auto
    from Cons.prems have "distinct (map f xs)" by simp
    from Cons.IH [OF this k(1)] False k(2) show ?thesis by simp
  qed
qed

subsection \<open>What each operation leaves in the cart\<close>

lemma snd_addItem_found:
  "findIndex (\<lambda>item. item_id item = prod_id product) (getItems b) = Some i \<Longrightarrow>
   snd (addItem b product quantity) =
     (getItems b)[i := (getItems b ! i)\<lparr>item_quantity := item_quantity (getItems b ! i) + quantity\<rparr>]"
  by (simp add: addItem_def Let_def)

lemma snd_addItem_new:
  "findIndex (\<lambda>item. item_id item = prod_id product) (getItems b) = None \<Longrightarrow>
   snd (addItem b product quantity) =
     getItems b @
       [\<lparr>item_id = prod_id product, item_name = prod_name product,
         item_price = (case prod_salePrice product of
                         None \<Rightarrow> prod_price product
                       | Some sp \<Rightarrow> if sp = 0 then prod_price product else sp),
         item_originalPrice = prod_price product, item_salePrice = prod_salePrice product,
         item_image = prod_image product, item_collection = prod_collection product,
         item_quantity = quantity\<rparr>]"
  by (simp add: addItem_def Let_def)

lemma fst_addItem: "fst (addItem b product quantity) = saveItems b (snd (addItem b product quantity))"
  by (simp add: addItem_def Let_def)

lemma getItems_addItem:
  "getItems (fst (addItem b product quantity)) =
     (if writable b then snd (addItem b product quantity) else getItems b)"
  by (simp add: fst_addItem getItems_saveItems saveItems_not_writable)

lemma updateQuantity_absent:
  "findIndex (\<lambda>item. item_id item = productId) (getItems b) = None \<Longrightarrow>
   updateQuantity b productId quantity = (b, getItems b)"
  by (simp add: updateQuantity_def Let_def)

lemma updateQuantity_found:
  "findIndex (\<lambda>item. item_id item = productId) (getItems b) = Some i \<Longrightarrow>
   updateQuantity b productId quantity =
     (saveItems b (if quantity \<le> 0 then splice1 i (getItems b)
                   else (getItems b)[i := (getItems b ! i)\<lparr>item_quantity := quantity\<rparr>]),
      (if quantity \<le> 0 then splice1 i (getItems b)
       else (getItems b)[i := (getItems b ! i)\<lparr>item_quantity := quantity\<rparr>]))"
  by (simp add: updateQuantity_def Let_def)

lemma getItems_removeItem:
  "getItems (fst (removeItem b productId)) =
     (if writable b then filter (\<lambda>item. item_id item \<noteq> productId) (getItems b) else getItems b)"
  by (simp add: removeItem_def Let_def getItems_saveItems saveItems_not_writable)

lemma getItems_clear [simp]: "getItems (clear b) = []"
  by (simp add: clear_def getItems_def)

lemma order_slot_apply_op [simp]: "order_slot (apply_op b op) = order_slot b"
  by (cases op)
    (simp_all add: addItem_def updateQuantity_def removeItem_def clear_def Let_def
      split: option.splits)

lemma writable_apply_op [simp]: "writable (apply_op b op) = writable b"
  by (cases op)
    (simp_all add: addItem_def updateQuantity_def removeItem_def clear_def Let_def
      split: option.splits)

lemma order_slot_run [simp]: "order_slot (run b ops) = order_slot b"
  unfolding run_def by (induction ops arbitrary: b) simp_all

lemma writable_run [simp]: "writable (run b ops) = writable b"
  unfolding run_def by (induction ops arbitrary: b) simp_all

subsection \<open>Rows stay unique per product id\<close>

lemma distinct_ids_apply_op:
  assumes "distinct (map item_id (getItems b))"
  shows "distinct (map item_id (getItems (apply_op b op)))"
proof (cases op)
  case (AddItem product quantity)
  show ?thesis
  proof (cases "findIndex (\<lambda>item. item_id item = prod_id product) (getItems b)")
    case None
    then have "prod_id product \<notin> item_id ` set (getItems b)"
      by (auto simp: findIndex_None_iff)
    with assms None AddItem show ?thesis
      by (simp add: getItems_addItem snd_addItem_new)
  next
    case (Some i)
    with assms AddItem show ?thesis
      by (simp add: getItems_addItem snd_addItem_found map_id_update_quantity)
  qed
next
  case (UpdateQuantity productId quantity)
  show ?thesis
  proof (cases "findIndex (\<lambda>item. item_id item = productId) (getItems b)")
    case None
    with assms UpdateQuantity show ?thesis by (simp add: updateQuantity_absent)
  next
    case (Some i)
    show ?thesis
    proof (cases "writable b")
      case True
      with assms UpdateQuantity Some show ?thesis
        by (simp add: updateQuantity_found getItems_saveItems distinct_map_splice1
            map_id_update_quantity)
    next
      case False
      with assms UpdateQuantity Some show ?thesis
        by (simp add: updateQuantity_found saveItems_not_writable)
    qed
  qed
next
  case (RemoveItem productId)
  with assms show ?thesis
    by (simp add: getItems_removeItem distinct_map_filter)
next
  case Clear
  then show ?thesis by simp
qed

lemma distinct_ids_run:
  "distinct (map item_id (getItems b)) \<Longrightarrow> distinct (map item_id (getItems (run b ops)))"
  unfolding run_def
  by (induction ops arbitrary: b) (simp_all add: distinct_ids_apply_op)

subsection \<open>C1: the unit price addItem snapshots\<close>

text \<open>
  What \<open>addItem\<close> stores in the \<open>price\<close> field of a new row, for every product: the sale
  price when it is set and not 0, else the base price. It is the effective price
  \<open>getEffectivePrice\<close> computes whenever the sale price is absent, 0, or below the base
  price.
\<close>

lemma addItem_new_row_price:
  assumes "findIndex (\<lambda>item. item_id item = prod_id product) (getItems b) = None"
  shows "item_price (last (snd (addItem b product quantity))) =
           (case prod_salePrice product of
              None \<Rightarrow> prod_price product
            | Some sp \<Rightarrow> if sp = 0 then prod_price product else sp)"
  using assms by (simp add: addItem_def Let_def)

lemma addItem_new_row_price_effective:
  assumes "findIndex (\<lambda>item. item_id item = prod_id product) (getItems b) = None"
    and "\<forall>sp. prod_salePrice product = Some sp \<longrightarrow> sp < prod_price product"
  shows "Some (item_price (last (snd (addItem b product quantity)))) = getEffectivePrice product"
  using assms
  by (auto simp: addItem_def Let_def getEffectivePrice_def isOnSale_def split: option.splits)

text \<open>
  C1: when \<open>addItem\<close> appends a new line-item, its \<open>price\<close> is the product's effective
  price; a product whose \<open>salePrice\<close> is set but not below its base price is snapshotted
  at the base price. The code takes \<^verbatim>\<open>product.salePrice || product.price\<close> instead of
  asking \<open>isOnSale\<close>: for a product with base price 50 and sale price 80 added to an
  empty cart, the row's \<open>price\<close> is 80, in the returned list and in the stored one,
  while \<open>isOnSale\<close> is \<open>false\<close> and \<open>getEffectivePrice\<close> is 50 for the same product.
\<close>

theorem C1_addItem_salePrice_above_price:
  "map item_price (snd (addItem fresh_browser (sample_product ''toy'' 50 (Some 80)) 1)) = [80]
   \<and> map item_price (getItems (fst (addItem fresh_browser (sample_product ''toy'' 50 (Some 80)) 1))) = [80]
   \<and> map item_originalPrice (snd (addItem fresh_browser (sample_product ''toy'' 50 (Some 80)) 1)) = [50]
   \<and> isOnSale (sample_product ''toy'' 50 (Some 80)) = JBoolean False
   \<and> getEffectivePrice (sample_product ''toy'' 50 (Some 80)) = Some 50"
  by (simp add: addItem_def Let_def getItems_saveItems getEffectivePrice_def isOnSale_def
      sample_product_def)

subsection \<open>C2: getTotals\<close>




subsection \<open>C3: rows with a quantity of 0 or less\<close>

text \<open>
  What does hold: when every \<open>addItem\<close> of a sequence of operations is called with a
  positive quantity, every row of the cart keeps a positive quantity.
\<close>

lemma positive_quantities_apply_op:
  assumes pos: "\<forall>item \<in> set (getItems b). 0 < item_quantity item"
    and op: "\<forall>product q. op = AddItem product q \<longrightarrow> 0 < q"
  shows "\<forall>item \<in> set (getItems (apply_op b op)). 0 < item_quantity item"
proof (cases op)
  case (AddItem product quantity)
  with op have q: "0 < quantity" by simp
  show ?thesis
  proof (cases "findIndex (\<lambda>item. item_id item = prod_id product) (getItems b)")
    case None
    with pos q AddItem show ?thesis
      by (auto simp: getItems_addItem snd_addItem_new)
  next
    case (Some i)
    from findIndex_Some [OF Some] have i: "i < length (getItems b)" by simp
    with pos have "0 < item_quantity (getItems b ! i)" by simp
    with q have "0 < item_quantity (getItems b ! i) + quantity" by simp
    with pos Some AddItem show ?thesis
      by (auto simp: getItems_addItem snd_addItem_found dest!: set_update_subset_insert [THEN subsetD])
  qed
next
  case (UpdateQuantity productId quantity)
  show ?thesis
  proof (cases "findIndex (\<lambda>item. item_id item = productId) (getItems b)")
    case None
    with pos UpdateQuantity show ?thesis by (simp add: updateQuantity_absent)
  next
    case (Some i)
    have sub: "set (splice1 i (getItems b)) \<subseteq> set (getItems b)"
      unfolding splice1_def
      using set_take_subset [of i "getItems b"] set_drop_subset [of "Suc i" "getItems b"]
      by auto
    show ?thesis
    proof (cases "writable b")
      case True
      with pos Some UpdateQuantity sub show ?thesis
        by (auto simp: updateQuantity_found getItems_saveItems
            dest!: set_update_subset_insert [THEN subsetD])
    next
      case False
      with pos Some UpdateQuantity show ?thesis
        by (simp add: updateQuantity_found saveItems_not_writable)
    qed
  qed
next
  case (RemoveItem productId)
  with pos show ?thesis by (simp add: getItems_removeItem)
next
  case Clear
  then show ?thesis by simp
qed

lemma positive_quantities_run:
  assumes "\<forall>item \<in> set (getItems b). 0 < item_quantity item"
    and "\<forall>product q. AddItem product q \<in> set ops \<longrightarrow> 0 < q"
  shows "\<forall>item \<in> set (getItems (run b ops)). 0 < item_quantity item"
  using assms unfolding run_def
proof (induction ops arbitrary: b)
  case Nil
  then show ?case by simp
next
  case (Cons op ops)
  from Cons.prems have "\<forall>item \<in> set (getItems (apply_op b op)). 0 < item_quantity item"
    by (intro positive_quantities_apply_op) auto
  moreover from Cons.prems have "\<forall>product q. AddItem product q \<in> set ops \<longrightarrow> 0 < q"
    by auto
  ultimately show ?case using Cons.IH by simp
qed

text \<open>
  C3: in every cart reached from the empty cart by \<open>addItem\<close>, \<open>updateQuantity\<close>,
  \<open>removeItem\<close> and \<open>clear\<close>, with any integer quantities, no row has a quantity of 0 or
  less. The code: \<open>addItem\<close> with quantity 0 on the empty cart stores a row of quantity
  0; \<open>addItem\<close> with 2 and then with \<open>-5\<close> leaves the row at \<open>-3\<close>. \<open>updateQuantity\<close>
  guards against this (2, then \<open>updateQuantity\<close> to 0, leaves no row); \<open>addItem\<close> does not.
\<close>

theorem C3_addItem_nonpositive_quantity:
  "map item_quantity
      (getItems (run fresh_browser [AddItem (sample_product ''toy'' 10 None) 0])) = [0]
   \<and> map item_quantity
      (getItems (run fresh_browser
         [AddItem (sample_product ''toy'' 10 None) 2,
          AddItem (sample_product ''toy'' 10 None) (- 5)])) = [- 3]
   \<and> getItems (run fresh_browser
         [AddItem (sample_product ''toy'' 10 None) 2, UpdateQuantity ''toy'' 0]) = []"
  by (simp add: run_def addItem_def updateQuantity_def Let_def getItems_saveItems
      sample_product_def splice1_def)

subsection \<open>C4: one row per product id\<close>

lemma findIndex_append_new:
  "findIndex P xs = None \<Longrightarrow> P y \<Longrightarrow> findIndex P (xs @ [y]) = Some (length xs)"
  by (induction xs) (auto split: if_splits)

lemma addItem_twice_new:
  assumes w: "writable b" and new: "prod_id product \<notin> item_id ` set (getItems b)"
  shows "getItems (fst (addItem (fst (addItem b product m)) product n)) =
           getItems b @
             [\<lparr>item_id = prod_id product, item_name = prod_name product,
               item_price = (case prod_salePrice product of
                               None \<Rightarrow> prod_price product
                             | Some sp \<Rightarrow> if sp = 0 then prod_price product else sp),
               item_originalPrice = prod_price product, item_salePrice = prod_salePrice product,
               item_image = prod_image product, item_collection = prod_collection product,
               item_quantity = m + n\<rparr>]"
proof -
  from new have none: "findIndex (\<lambda>item. item_id item = prod_id product) (getItems b) = None"
    by (auto simp: findIndex_None_iff image_iff)
  let ?b1 = "fst (addItem b product m)"
  from w have w1: "writable ?b1" by (simp add: fst_addItem)
  from w none have items1: "getItems ?b1 = snd (addItem b product m)"
    by (simp add: getItems_addItem)
  have found: "findIndex (\<lambda>item. item_id item = prod_id product) (getItems ?b1)
                 = Some (length (getItems b))"
    unfolding items1 snd_addItem_new [OF none]
    by (rule findIndex_append_new [OF none]) simp
  from w1 have "getItems (fst (addItem ?b1 product n)) = snd (addItem ?b1 product n)"
    by (simp add: getItems_addItem)
  also have "\<dots> = (getItems ?b1)[length (getItems b) :=
      (getItems ?b1 ! length (getItems b))\<lparr>item_quantity :=
          item_quantity (getItems ?b1 ! length (getItems b)) + n\<rparr>]"
    by (rule snd_addItem_found [OF found])
  finally show ?thesis
    by (simp add: items1 snd_addItem_new [OF none])
qed

text \<open>
  C4: line-items are unique per product id in every cart reached from the empty cart.
  When \<open>addItem\<close> is called for a product id that is in the cart, the list it returns
  (and stores, when the storage takes the write) is the old list with the quantity of
  the first row of that id increased by the given amount: same length, same ids, same
  \<open>price\<close> and \<open>originalPrice\<close> in every position. Adding a product that is not in the
  cart with quantity 2 and then with quantity 3 leaves one row for it, at the end, with
  quantity 5.
\<close>

theorem C4_unique_rows:
  "(getItems b0 = [] \<longrightarrow> distinct (map item_id (getItems (run b0 ops))))
   \<and> (prod_id product \<in> item_id ` set (getItems b) \<longrightarrow>
        (\<exists>k < length (getItems b).
            item_id (getItems b ! k) = prod_id product
            \<and> (\<forall>j < k. item_id (getItems b ! j) \<noteq> prod_id product)
            \<and> snd (addItem b product quantity) =
                (getItems b)[k := (getItems b ! k)\<lparr>item_quantity :=
                                  item_quantity (getItems b ! k) + quantity\<rparr>])
        \<and> length (snd (addItem b product quantity)) = length (getItems b)
        \<and> map item_id (snd (addItem b product quantity)) = map item_id (getItems b)
        \<and> map item_price (snd (addItem b product quantity)) = map item_price (getItems b)
        \<and> map item_originalPrice (snd (addItem b product quantity))
            = map item_originalPrice (getItems b)
        \<and> (writable b \<longrightarrow>
              getItems (fst (addItem b product quantity)) = snd (addItem b product quantity)))
   \<and> (writable b \<and> prod_id product \<notin> item_id ` set (getItems b) \<longrightarrow>
        getItems (fst (addItem (fst (addItem b product 2)) product 3)) =
          getItems b @
            [\<lparr>item_id = prod_id product, item_name = prod_name product,
              item_price = (case prod_salePrice product of
                              None \<Rightarrow> prod_price product
                            | Some sp \<Rightarrow> if sp = 0 then prod_price product else sp),
              item_originalPrice = prod_price product, item_salePrice = prod_salePrice product,
              item_image = prod_image product, item_collection = prod_collection product,
              item_quantity = 5\<rparr>])"
proof (intro conjI impI)
  assume "getItems b0 = []"
  then show "distinct (map item_id (getItems (run b0 ops)))"
    by (intro distinct_ids_run) simp
next
  assume "prod_id product \<in> item_id ` set (getItems b)"
  then obtain k where k: "findIndex (\<lambda>item. item_id item = prod_id product) (getItems b) = Some k"
    using findIndex_id_cases [of "prod_id product" "getItems b"] by blast
  note found = snd_addItem_found [OF k]
  from findIndex_Some [OF k] found
  show "\<exists>k < length (getItems b).
            item_id (getItems b ! k) = prod_id product
            \<and> (\<forall>j < k. item_id (getItems b ! j) \<noteq> prod_id product)
            \<and> snd (addItem b product quantity) =
                (getItems b)[k := (getItems b ! k)\<lparr>item_quantity :=
                                  item_quantity (getItems b ! k) + quantity\<rparr>]"
    by blast
  show "length (snd (addItem b product quantity)) = length (getItems b)"
    by (simp add: found)
  show "map item_id (snd (addItem b product quantity)) = map item_id (getItems b)"
    by (simp only: found map_id_update_quantity)
  show "map item_price (snd (addItem b product quantity)) = map item_price (getItems b)"
    by (simp only: found map_price_update_quantity)
  show "map item_originalPrice (snd (addItem b product quantity))
            = map item_originalPrice (getItems b)"
    by (simp only: found map_originalPrice_update_quantity)
  show "getItems (fst (addItem b product quantity)) = snd (addItem b product quantity)"
    if "writable b"
    using that by (simp add: getItems_addItem)
next
  assume "writable b \<and> prod_id product \<notin> item_id ` set (getItems b)"
  then show "getItems (fst (addItem (fst (addItem b product 2)) product 3)) =
          getItems b @
            [\<lparr>item_id = prod_id product, item_name = prod_name product,
              item_price = (case prod_salePrice product of
                              None \<Rightarrow> prod_price product
                            | Some sp \<Rightarrow> if sp = 0 then prod_price product else sp),
              item_originalPrice = prod_price product, item_salePrice = prod_salePrice product,
              item_image = prod_image product, item_collection = prod_collection product,
              item_quantity = 5\<rparr>]"
    using addItem_twice_new [of b product 2 3] by simp
qed

text \<open>Witness of C4: one product added with 2 and then with 3, and a second product in
  between.\<close>

theorem C4_unique_rows_witness:
  "getItems fresh_browser = []
   \<and> distinct (map item_id (getItems (run fresh_browser
        [AddItem (sample_product ''a'' 45 (Some 36)) 2, AddItem (sample_product ''b'' 68 None) 1,
         AddItem (sample_product ''a'' 45 (Some 36)) 3])))
   \<and> prod_id (sample_product ''a'' 45 (Some 36))
        \<in> item_id ` set (getItems (fst (addItem fresh_browser (sample_product ''a'' 45 (Some 36)) 2)))
   \<and> length (snd (addItem (fst (addItem fresh_browser (sample_product ''a'' 45 (Some 36)) 2))
                  (sample_product ''a'' 45 (Some 36)) 3)) = 1
   \<and> writable (fst (addItem fresh_browser (sample_product ''a'' 45 (Some 36)) 2))
   \<and> writable fresh_browser
   \<and> prod_id (sample_product ''a'' 45 (Some 36)) \<notin> item_id ` set (getItems fresh_browser)
   \<and> map item_quantity (getItems (fst (addItem (fst (addItem fresh_browser
        (sample_product ''a'' 45 (Some 36)) 2)) (sample_product ''a'' 45 (Some 36)) 3))) = [5]"
proof -
  have e: "getItems fresh_browser = []" by simp
  have w: "writable fresh_browser" by simp
  have one: "getItems (fst (addItem fresh_browser (sample_product ''a'' 45 (Some 36)) 2)) =
      [\<lparr>item_id = ''a'', item_name = ''Sample Toy'', item_price = 36, item_originalPrice = 45,
        item_salePrice = Some 36, item_image = ''images/sample-toy.jpg'',
        item_collection = ''Heirloom Wooden'', item_quantity = 2\<rparr>]"
    by (simp add: addItem_def Let_def getItems_saveItems sample_product_def)
  have pid: "prod_id (sample_product ''a'' 45 (Some 36)) = ''a''"
    by (simp add: sample_product_def)
  show ?thesis
    using C4_unique_rows [where ?b0.0 = fresh_browser
        and ops = "[AddItem (sample_product ''a'' 45 (Some 36)) 2,
                    AddItem (sample_product ''b'' 68 None) 1,
                    AddItem (sample_product ''a'' 45 (Some 36)) 3]"
        and product = "sample_product ''a'' 45 (Some 36)"
        and b = "fst (addItem fresh_browser (sample_product ''a'' 45 (Some 36)) 2)"
        and quantity = 3]
      C4_unique_rows [where ?b0.0 = fresh_browser and ops = "[]"
        and product = "sample_product ''a'' 45 (Some 36)" and b = fresh_browser and quantity = 3]
      e w one pid
    by (simp add: fst_addItem)
qed

subsection \<open>C5: updateQuantity\<close>

lemma quantity_of_updated_rows:
  assumes "item \<in> set (map (\<lambda>x. if item_id x = productId then x\<lparr>item_quantity := q\<rparr> else x) xs)"
    and "item_id item = productId"
  shows "item_quantity item = q"
proof -
  from assms(1) obtain x where x: "x \<in> set xs"
    and eq: "item = (if item_id x = productId then x\<lparr>item_quantity := q\<rparr> else x)"
    by (auto simp only: set_map image_iff)
  show ?thesis
  proof (cases "item_id x = productId")
    case True
    with eq show ?thesis by simp
  next
    case False
    with eq have "item = x" by simp
    with False assms(2) show ?thesis by simp
  qed
qed

text \<open>
  C5: for every cart (its rows unique per product id, as in every reachable cart) and
  every product id: when the id is not in the cart, \<open>updateQuantity\<close> changes nothing
  and returns the rows as they are; when it is, and the storage takes the write, a
  quantity of 0 or less removes the row of that id, so that \<open>getItems\<close> afterwards holds
  no row of that id and every other row as before, and a quantity above 0 sets the
  quantity of that row to exactly the given value and leaves every other row as it was.
\<close>

theorem C5_updateQuantity:
  "(productId \<notin> item_id ` set (getItems b) \<longrightarrow>
        updateQuantity b productId q = (b, getItems b))
   \<and> (writable b \<and> distinct (map item_id (getItems b))
        \<and> productId \<in> item_id ` set (getItems b) \<and> q \<le> 0 \<longrightarrow>
        snd (updateQuantity b productId q)
          = filter (\<lambda>item. item_id item \<noteq> productId) (getItems b)
        \<and> getItems (fst (updateQuantity b productId q))
          = filter (\<lambda>item. item_id item \<noteq> productId) (getItems b)
        \<and> productId \<notin> item_id ` set (getItems (fst (updateQuantity b productId q))))
   \<and> (writable b \<and> distinct (map item_id (getItems b))
        \<and> productId \<in> item_id ` set (getItems b) \<and> 0 < q \<longrightarrow>
        snd (updateQuantity b productId q)
          = map (\<lambda>item. if item_id item = productId then item\<lparr>item_quantity := q\<rparr> else item)
              (getItems b)
        \<and> getItems (fst (updateQuantity b productId q))
          = map (\<lambda>item. if item_id item = productId then item\<lparr>item_quantity := q\<rparr> else item)
              (getItems b)
        \<and> (\<forall>item \<in> set (getItems (fst (updateQuantity b productId q))).
              item_id item = productId \<longrightarrow> item_quantity item = q))"
proof (intro conjI impI)
  assume "productId \<notin> item_id ` set (getItems b)"
  then have "findIndex (\<lambda>item. item_id item = productId) (getItems b) = None"
    by (auto simp: findIndex_None_iff image_iff)
  then show "updateQuantity b productId q = (b, getItems b)"
    by (rule updateQuantity_absent)
next
  assume a: "writable b \<and> distinct (map item_id (getItems b))
        \<and> productId \<in> item_id ` set (getItems b) \<and> q \<le> 0"
  then obtain k where k: "findIndex (\<lambda>item. item_id item = productId) (getItems b) = Some k"
    using findIndex_id_cases [of productId "getItems b"] by blast
  from a have d: "distinct (map item_id (getItems b))" by simp
  have sp: "splice1 k (getItems b) = filter (\<lambda>item. item_id item \<noteq> productId) (getItems b)"
    using splice1_first_match [where f = item_id, OF d k] .
  from a show s: "snd (updateQuantity b productId q)
          = filter (\<lambda>item. item_id item \<noteq> productId) (getItems b)"
    by (simp add: updateQuantity_found [OF k] sp)
  from a show g: "getItems (fst (updateQuantity b productId q))
          = filter (\<lambda>item. item_id item \<noteq> productId) (getItems b)"
    by (simp add: updateQuantity_found [OF k] sp getItems_saveItems)
  show "productId \<notin> item_id ` set (getItems (fst (updateQuantity b productId q)))"
    unfolding g by auto
next
  assume a: "writable b \<and> distinct (map item_id (getItems b))
        \<and> productId \<in> item_id ` set (getItems b) \<and> 0 < q"
  then obtain k where k: "findIndex (\<lambda>item. item_id item = productId) (getItems b) = Some k"
    using findIndex_id_cases [of productId "getItems b"] by blast
  from a have d: "distinct (map item_id (getItems b))" by simp
  have up: "(getItems b)[k := (getItems b ! k)\<lparr>item_quantity := q\<rparr>]
      = map (\<lambda>item. if item_id item = productId then item\<lparr>item_quantity := q\<rparr> else item)
          (getItems b)"
    using update_first_match [where f = item_id and g = "\<lambda>item. item\<lparr>item_quantity := q\<rparr>",
        OF d k]
    by simp
  from a show "snd (updateQuantity b productId q)
          = map (\<lambda>item. if item_id item = productId then item\<lparr>item_quantity := q\<rparr> else item)
              (getItems b)"
    by (simp add: updateQuantity_found [OF k] up)
  from a show g: "getItems (fst (updateQuantity b productId q))
          = map (\<lambda>item. if item_id item = productId then item\<lparr>item_quantity := q\<rparr> else item)
              (getItems b)"
    by (simp add: updateQuantity_found [OF k] up getItems_saveItems)
  show "\<forall>item \<in> set (getItems (fst (updateQuantity b productId q))).
              item_id item = productId \<longrightarrow> item_quantity item = q"
    unfolding g using quantity_of_updated_rows [of _ productId q "getItems b"] by blast
qed

text \<open>Witness of C5: a cart of two products; an id that is not there, the first product
  set to 0, and the first product set to 7.\<close>

theorem C5_updateQuantity_witness:
  "''c'' \<notin> item_id ` set (getItems (run fresh_browser
        [AddItem (sample_product ''a'' 45 (Some 36)) 2, AddItem (sample_product ''b'' 68 None) 1]))
   \<and> writable (run fresh_browser
        [AddItem (sample_product ''a'' 45 (Some 36)) 2, AddItem (sample_product ''b'' 68 None) 1])
   \<and> distinct (map item_id (getItems (run fresh_browser
        [AddItem (sample_product ''a'' 45 (Some 36)) 2, AddItem (sample_product ''b'' 68 None) 1])))
   \<and> ''a'' \<in> item_id ` set (getItems (run fresh_browser
        [AddItem (sample_product ''a'' 45 (Some 36)) 2, AddItem (sample_product ''b'' 68 None) 1]))
   \<and> (0::int) \<le> 0 \<and> (0::int) < 7
   \<and> map item_id (getItems (fst (updateQuantity (run fresh_browser
        [AddItem (sample_product ''a'' 45 (Some 36)) 2, AddItem (sample_product ''b'' 68 None) 1])
        ''a'' 0))) = [''b'']
   \<and> map item_quantity (getItems (fst (updateQuantity (run fresh_browser
        [AddItem (sample_product ''a'' 45 (Some 36)) 2, AddItem (sample_product ''b'' 68 None) 1])
        ''a'' 7))) = [7, 1]
   \<and> map item_quantity (snd (updateQuantity (run fresh_browser
        [AddItem (sample_product ''a'' 45 (Some 36)) 2, AddItem (sample_product ''b'' 68 None) 1])
        ''c'' 7)) = [2, 1]"
proof -
  define cart where "cart = run fresh_browser
        [AddItem (sample_product ''a'' 45 (Some 36)) 2, AddItem (sample_product ''b'' 68 None) 1]"
  have items: "getItems cart =
      [\<lparr>item_id = ''a'', item_name = ''Sample Toy'', item_price = 36, item_originalPrice = 45,
        item_salePrice = Some 36, item_image = ''images/sample-toy.jpg'',
        item_collection = ''Heirloom Wooden'', item_quantity = 2\<rparr>,
       \<lparr>item_id = ''b'', item_name = ''Sample Toy'', item_price = 68, item_originalPrice = 68,
        item_salePrice = None, item_image = ''images/sample-toy.jpg'',
        item_collection = ''Heirloom Wooden'', item_quantity = 1\<rparr>]"
    unfolding cart_def
    by (simp add: run_def addItem_def Let_def getItems_saveItems sample_product_def)
  have w: "writable cart" unfolding cart_def by simp
  show ?thesis
    unfolding cart_def [symmetric]
    using C5_updateQuantity [of "''c''" cart 7] C5_updateQuantity [of "''a''" cart 0]
      C5_updateQuantity [of "''a''" cart 7] items w
    by simp
qed

subsection \<open>C6: the cart slot and the order slot\<close>

lemma getLastOrder_run [simp]: "getLastOrder (run b ops) = getLastOrder b"
  by (simp add: getLastOrder_def)

lemma fst_saveOrder:
  "fst (saveOrder b now isoDate) =
     (if writable b then b\<lparr>order_slot := Stored (snd (saveOrder b now isoDate))\<rparr> else b)"
  by (simp add: saveOrder_def Let_def)

text \<open>
  C6: \<open>clear\<close> empties the cart (\<open>getItems\<close> then returns the empty list) and leaves the
  order slot as it was; \<open>saveOrder\<close> leaves the cart slot, and so the rows \<open>getItems\<close>
  reads, as they were; the order \<open>saveOrder\<close> builds holds the rows and the totals of the
  cart at the call; and when the storage takes the write, \<open>getLastOrder\<close> returns that
  order after any sequence of \<open>addItem\<close>, \<open>updateQuantity\<close>, \<open>removeItem\<close> and \<open>clear\<close>
  that follows.
\<close>

theorem C6_slots_independent:
  "getItems (clear b) = []
   \<and> order_slot (clear b) = order_slot b
   \<and> getLastOrder (clear b) = getLastOrder b
   \<and> cart_slot (fst (saveOrder b now isoDate)) = cart_slot b
   \<and> getItems (fst (saveOrder b now isoDate)) = getItems b
   \<and> cart_count_els (fst (saveOrder b now isoDate)) = cart_count_els b
   \<and> order_items (snd (saveOrder b now isoDate)) = getItems b
   \<and> order_totals (snd (saveOrder b now isoDate)) = getTotals b
   \<and> (writable b \<longrightarrow>
        getLastOrder (fst (saveOrder b now isoDate)) = Some (snd (saveOrder b now isoDate))
        \<and> getLastOrder (run (fst (saveOrder b now isoDate)) ops)
            = Some (snd (saveOrder b now isoDate)))"
proof (intro conjI impI)
  show "getItems (clear b) = []" by simp
  show "order_slot (clear b) = order_slot b" by (simp add: clear_def)
  show "getLastOrder (clear b) = getLastOrder b" by (simp add: clear_def getLastOrder_def)
  show "cart_slot (fst (saveOrder b now isoDate)) = cart_slot b" by (simp add: fst_saveOrder)
  show "getItems (fst (saveOrder b now isoDate)) = getItems b"
    by (simp add: fst_saveOrder getItems_def)
  show "cart_count_els (fst (saveOrder b now isoDate)) = cart_count_els b"
    by (simp add: fst_saveOrder)
  show "order_items (snd (saveOrder b now isoDate)) = getItems b"
    by (simp add: saveOrder_def Let_def)
  show "order_totals (snd (saveOrder b now isoDate)) = getTotals b"
    by (simp add: saveOrder_def Let_def)
  show "getLastOrder (fst (saveOrder b now isoDate)) = Some (snd (saveOrder b now isoDate))"
    if "writable b"
    using that by (simp add: fst_saveOrder getLastOrder_def)
  then show "getLastOrder (run (fst (saveOrder b now isoDate)) ops)
            = Some (snd (saveOrder b now isoDate))"
    if "writable b"
    using that by simp
qed

text \<open>Witness of C6: an order saved from a cart of one row, then the cart changed and
  cleared.\<close>

theorem C6_slots_independent_witness:
  "writable (run fresh_browser [AddItem (sample_product ''a'' 45 (Some 36)) 2])
   \<and> map_option order_items (getLastOrder (run (fst (saveOrder
          (run fresh_browser [AddItem (sample_product ''a'' 45 (Some 36)) 2])
          1762160000123 ''2025-11-03T08:53:20.123Z''))
        [AddItem (sample_product ''b'' 68 None) 1, UpdateQuantity ''a'' 0, Clear]))
      = Some (getItems (run fresh_browser [AddItem (sample_product ''a'' 45 (Some 36)) 2]))
   \<and> getItems (run (fst (saveOrder
          (run fresh_browser [AddItem (sample_product ''a'' 45 (Some 36)) 2])
          1762160000123 ''2025-11-03T08:53:20.123Z''))
        [AddItem (sample_product ''b'' 68 None) 1, UpdateQuantity ''a'' 0, Clear]) = []
   \<and> orderNumber (snd (saveOrder
          (run fresh_browser [AddItem (sample_product ''a'' 45 (Some 36)) 2])
          1762160000123 ''2025-11-03T08:53:20.123Z'')) = ''HC60000123''"
proof -
  define cart where "cart = run fresh_browser [AddItem (sample_product ''a'' 45 (Some 36)) 2]"
  have w: "writable cart" unfolding cart_def by simp
  have num: "orderNumber (snd (saveOrder cart 1762160000123 ''2025-11-03T08:53:20.123Z''))
      = ''HC60000123''"
    by (simp add: saveOrder_def Let_def decimal.simps digit_def slice_last_def)
  have cl: "getItems (run (fst (saveOrder cart 1762160000123 ''2025-11-03T08:53:20.123Z''))
        [AddItem (sample_product ''b'' 68 None) 1, UpdateQuantity ''a'' 0, Clear]) = []"
    by (simp add: run_def)
  show ?thesis
    unfolding cart_def [symmetric]
    using C6_slots_independent [of cart 1762160000123 "''2025-11-03T08:53:20.123Z''"
        "[AddItem (sample_product ''b'' 68 None) 1, UpdateQuantity ''a'' 0, Clear]"] w cl num
    by simp
qed

subsection \<open>C7: isOnSale\<close>

text \<open>
  C7 as written: \<open>isOnSale(P)\<close> is true exactly when \<open>P.salePrice\<close> is set and
  \<open>P.salePrice < P.price\<close>, also when \<open>salePrice\<close> is set to 0. The code tests the
  truthiness of \<open>salePrice\<close> first, so a product whose sale price is set to 0 and whose
  base price is 10 is not on sale: the call returns the number 0, which is falsy.
\<close>

theorem C7_isOnSale_zero_counterexample:
  "prod_salePrice (sample_product ''toy'' 10 (Some 0)) = Some 0
   \<and> (0::rat) < prod_price (sample_product ''toy'' 10 (Some 0))
   \<and> isOnSale (sample_product ''toy'' 10 (Some 0)) = JNumber 0
   \<and> isOnSale (sample_product ''toy'' 10 (Some 0)) \<noteq> JBoolean True
   \<and> \<not> truthy (isOnSale (sample_product ''toy'' 10 (Some 0)))"
  by (simp add: isOnSale_def sample_product_def)

text \<open>
  C7, amended: for every product \<open>P\<close>, \<open>isOnSale(P)\<close> returns \<open>true\<close> exactly when
  \<open>P.salePrice\<close> is set, is not 0, and is less than \<open>P.price\<close>; in every other case it
  returns a falsy value (\<open>false\<close>, \<open>null\<close> or the number 0), so it is truthy exactly when
  it is \<open>true\<close>. A sale price that equals or exceeds the base price gives \<open>false\<close>. The
  result is a function of the product alone.
\<close>

theorem C7_isOnSale_iff:
  "(isOnSale P = JBoolean True \<longleftrightarrow>
      (\<exists>sp. prod_salePrice P = Some sp \<and> sp \<noteq> 0 \<and> sp < prod_price P))
   \<and> (truthy (isOnSale P) \<longleftrightarrow> isOnSale P = JBoolean True)
   \<and> (isOnSale P = JBoolean True \<or> isOnSale P = JBoolean False
        \<or> isOnSale P = JNull \<or> isOnSale P = JNumber 0)
   \<and> (\<forall>sp. prod_salePrice P = Some sp \<and> sp \<noteq> 0 \<and> sp \<ge> prod_price P
          \<longrightarrow> isOnSale P = JBoolean False)"
  by (auto simp: isOnSale_def split: option.splits)

text \<open>Witness of C7: a sale price of 80 on a base price of 50 is not a sale; 36 on 45 is.\<close>

theorem C7_isOnSale_iff_witness:
  "prod_salePrice (sample_product ''toy'' 50 (Some 80)) = Some 80
   \<and> (80::rat) \<noteq> 0 \<and> (80::rat) \<ge> prod_price (sample_product ''toy'' 50 (Some 80))
   \<and> isOnSale (sample_product ''toy'' 50 (Some 80)) = JBoolean False
   \<and> isOnSale (sample_product ''woodland-animal-family'' 45 (Some 36)) = JBoolean True"
proof -
  have p: "prod_salePrice (sample_product ''toy'' 50 (Some 80)) = Some 80"
    "prod_price (sample_product ''toy'' 50 (Some 80)) = 50"
    "prod_salePrice (sample_product ''woodland-animal-family'' 45 (Some 36)) = Some 36"
    "prod_price (sample_product ''woodland-animal-family'' 45 (Some 36)) = 45"
    by (simp_all add: sample_product_def)
  show ?thesis
    using C7_isOnSale_iff [of "sample_product ''toy'' 50 (Some 80)"]
      C7_isOnSale_iff [of "sample_product ''woodland-animal-family'' 45 (Some 36)"] p
    by simp
qed

subsection \<open>C8: getCollectionProducts\<close>

text \<open>
  What does hold: for a collection id that is not the name of a property every object
  inherits, an unknown collection gives the empty list; and a known collection whose
  product ids are not such names gives its products in the order of its id list, the
  ids without a product dropped.
\<close>

lemma lookup_products_filter:
  "set ids \<inter> set Object_prototype = {} \<Longrightarrow>
   filter (\<lambda>v. v \<noteq> Undefined) (map (\<lambda>id'. lookup products id') ids)
     = map Own (List.map_filter products ids)"
  by (induction ids) (auto simp: lookup_def List.map_filter_simps split: option.splits)

lemma getCollectionProducts_unknown:
  "Collections cat collectionId = None \<Longrightarrow> collectionId \<notin> set Object_prototype \<Longrightarrow>
   getCollectionProducts cat collectionId = Inr []"
  by (simp add: getCollectionProducts_def lookup_def)

lemma getCollectionProducts_known:
  "Collections cat collectionId = Some c \<Longrightarrow>
   set (coll_products c) \<inter> set Object_prototype = {} \<Longrightarrow>
   getCollectionProducts cat collectionId
     = Inr (map Own (List.map_filter (Products cat) (coll_products c)))"
  by (simp add: getCollectionProducts_def lookup_def lookup_products_filter)

text \<open>
  C8: for every collection id, \<open>getCollectionProducts\<close> returns the products of the
  collection's id list in their order, the ids without a product dropped and never an
  error, and the empty sequence for an unknown collection id. The code: with the
  fallback catalog, which has no collection
  \<open>constructor\<close>, the call \<open>getCollectionProducts('constructor')\<close> reads the function
  every object inherits under that name, passes the guard \<^verbatim>\<open>if (!collection)\<close>, and
  throws a \<open>TypeError\<close> at \<^verbatim>\<open>collection.products.map\<close>. An unknown id that no object
  inherits gives the empty list, and the known collection gives its product.
\<close>

theorem C8_getCollectionProducts_inherited_name:
  "Collections initializeFallbackData ''constructor'' = None
   \<and> getCollectionProducts initializeFallbackData ''constructor'' = Inl TypeError
   \<and> getCollectionProducts initializeFallbackData ''no-such-collection'' = Inr []
   \<and> getCollectionProducts initializeFallbackData ''heirloom-wooden''
       = Inr [lookup (Products initializeFallbackData) ''heritage-block-set'']
   \<and> Products initializeFallbackData ''heritage-block-set'' \<noteq> None"
  by (simp add: getCollectionProducts_def lookup_def initializeFallbackData_def
      Object_prototype_def)

subsection \<open>C9: the cart survives a reload\<close>

text \<open>
  C9: for every sequence of line-items, \<open>saveItems\<close> followed by \<open>getItems\<close> yields the
  same sequence, provided the storage took the write (\<open>setItem\<close> did not throw); a
  reload of the page, which rebuilds the cart-count elements and keeps \<open>localStorage\<close>,
  does not change what \<open>getItems\<close> reads.
\<close>

theorem C9_saveItems_getItems_roundtrip:
  assumes "writable b"
  shows "getItems (saveItems b items) = items
         \<and> (\<forall>els. getItems ((saveItems b items)\<lparr>cart_count_els := els\<rparr>) = items)"
  using assms by (simp add: saveItems_def getItems_def)

text \<open>Witness of C9: two rows saved into the empty browser.\<close>

theorem C9_saveItems_getItems_roundtrip_witness:
  "writable fresh_browser
   \<and> getItems (saveItems fresh_browser
        (snd (addItem (fst (addItem fresh_browser (sample_product ''a'' 45 (Some 36)) 2))
                (sample_product ''b'' 68 None) 1)))
      = snd (addItem (fst (addItem fresh_browser (sample_product ''a'' 45 (Some 36)) 2))
                (sample_product ''b'' 68 None) 1)
   \<and> length (snd (addItem (fst (addItem fresh_browser (sample_product ''a'' 45 (Some 36)) 2))
                (sample_product ''b'' 68 None) 1)) = 2"
proof -
  have w: "writable fresh_browser" by simp
  have len: "length (snd (addItem (fst (addItem fresh_browser (sample_product ''a'' 45 (Some 36)) 2))
                (sample_product ''b'' 68 None) 1)) = 2"
    by (simp add: addItem_def Let_def getItems_saveItems sample_product_def)
  show ?thesis
    using C9_saveItems_getItems_roundtrip [OF w] w len by simp
qed

subsection \<open>C10: the two copies of the module\<close>

lemma isOnSale_part000_eq: "isOnSale_part000 = isOnSale"
  by (intro ext)
    (unfold isOnSale_part000_def isOnSale_def, rule refl)

lemma getEffectivePrice_part000_eq: "getEffectivePrice_part000 = getEffectivePrice"
  by (intro ext)
    (unfold getEffectivePrice_part000_def getEffectivePrice_def isOnSale_part000_eq,
      rule refl)

lemma calculatePercentOff_part000_eq: "calculatePercentOff_part000 = calculatePercentOff"
  by (intro ext)
    (unfold calculatePercentOff_part000_def calculatePercentOff_def, rule refl)

lemma getItems_part000_eq: "getItems_part000 = getItems"
  by (intro ext)
    (unfold getItems_part000_def getItems_def, rule refl)

lemma getTotals_part000_eq: "getTotals_part000 = getTotals"
  by (intro ext)
    (unfold getTotals_part000_def getTotals_def getItems_part000_eq, rule refl)

lemma updateCartCount_part000_eq: "updateCartCount_part000 = updateCartCount"
  by (intro ext)
    (unfold updateCartCount_part000_def updateCartCount_def getTotals_part000_eq, rule
      refl)

lemma saveItems_part000_eq: "saveItems_part000 = saveItems"
  by (intro ext)
    (unfold saveItems_part000_def saveItems_def updateCartCount_part000_eq, rule refl)

lemma addItem_part000_eq: "addItem_part000 = addItem"
  by (intro ext)
    (unfold addItem_part000_def addItem_def getItems_part000_eq saveItems_part000_eq,
      rule refl)

lemma updateQuantity_part000_eq: "updateQuantity_part000 = updateQuantity"
  by (intro ext)
    (unfold updateQuantity_part000_def updateQuantity_def getItems_part000_eq
      saveItems_part000_eq, rule refl)

lemma removeItem_part000_eq: "removeItem_part000 = removeItem"
  by (intro ext)
    (unfold removeItem_part000_def removeItem_def getItems_part000_eq
      saveItems_part000_eq, rule refl)

lemma clear_part000_eq: "clear_part000 = clear"
  by (intro ext)
    (unfold clear_part000_def clear_def updateCartCount_part000_eq, rule refl)

lemma saveOrder_part000_eq: "saveOrder_part000 = saveOrder"
  by (intro ext)
    (unfold saveOrder_part000_def saveOrder_def getItems_part000_eq
      getTotals_part000_eq, rule refl)

lemma getLastOrder_part000_eq: "getLastOrder_part000 = getLastOrder"
  by (intro ext)
    (unfold getLastOrder_part000_def getLastOrder_def, rule refl)

lemma formatPrice_part000_eq: "formatPrice_part000 = formatPrice"
  by (intro ext)
    (unfold formatPrice_part000_def formatPrice_def, rule refl)

lemma getProduct_part000_eq: "getProduct_part000 = getProduct"
  by (intro ext)
    (unfold getProduct_part000_def getProduct_def, rule refl)

lemma getCollection_part000_eq: "getCollection_part000 = getCollection"
  by (intro ext)
    (unfold getCollection_part000_def getCollection_def, rule refl)

lemma getCollectionProducts_part000_eq: "getCollectionProducts_part000 = getCollectionProducts"
  by (intro ext)
    (unfold getCollectionProducts_part000_def getCollectionProducts_def, rule refl)

lemma renderPriceHTML_part000_eq: "renderPriceHTML_part000 = renderPriceHTML"
  by (intro ext)
    (unfold renderPriceHTML_part000_def renderPriceHTML_def isOnSale_part000_eq
      calculatePercentOff_part000_eq, rule refl)

lemma renderProductCard_part000_eq: "renderProductCard_part000 = renderProductCard"
  by (intro ext)
    (unfold renderProductCard_part000_def renderProductCard_def isOnSale_part000_eq,
      rule refl)

text \<open>
  C10: every operation of the \<open>Cart\<close> object and every helper of \<^verbatim>\<open>src/unnamed/part_000\<close>
  is the same function as the one of that name in \<^verbatim>\<open>src/js/cart.js\<close>: on every input,
  every browser state and every catalog it returns the same result and leaves the same
  state. (\<open>saveItems\<close> and \<open>updateCartCount\<close>, through which the operations write, are
  included.)
\<close>

theorem C10_copies_equal:
  "getItems_part000 = getItems
   \<and> saveItems_part000 = saveItems
   \<and> updateCartCount_part000 = updateCartCount
   \<and> addItem_part000 = addItem
   \<and> updateQuantity_part000 = updateQuantity
   \<and> removeItem_part000 = removeItem
   \<and> getTotals_part000 = getTotals
   \<and> clear_part000 = clear
   \<and> saveOrder_part000 = saveOrder
   \<and> getLastOrder_part000 = getLastOrder
   \<and> formatPrice_part000 = formatPrice
   \<and> getProduct_part000 = getProduct
   \<and> getCollection_part000 = getCollection
   \<and> getCollectionProducts_part000 = getCollectionProducts
   \<and> calculatePercentOff_part000 = calculatePercentOff
   \<and> isOnSale_part000 = isOnSale
   \<and> getEffectivePrice_part000 = getEffectivePrice
   \<and> renderPriceHTML_part000 = renderPriceHTML
   \<and> renderProductCard_part000 = renderProductCard"
  by (simp only: getItems_part000_eq saveItems_part000_eq updateCartCount_part000_eq
      addItem_part000_eq updateQuantity_part000_eq removeItem_part000_eq getTotals_part000_eq
      clear_part000_eq saveOrder_part000_eq getLastOrder_part000_eq formatPrice_part000_eq
      getProduct_part000_eq getCollection_part000_eq getCollectionProducts_part000_eq
      calculatePercentOff_part000_eq isOnSale_part000_eq getEffectivePrice_part000_eq
      renderPriceHTML_part000_eq renderProductCard_part000_eq simp_thms)

text \<open>C10 at an input: the same product added twice, the totals, a price and a lookup.\<close>

theorem C10_copies_equal_witness:
  "addItem_part000 (fst (addItem_part000 fresh_browser (sample_product ''a'' 45 (Some 36)) 2))
       (sample_product ''a'' 45 (Some 36)) 3
     = addItem (fst (addItem fresh_browser (sample_product ''a'' 45 (Some 36)) 2))
       (sample_product ''a'' 45 (Some 36)) 3
   \<and> getTotals_part000 (fst (addItem_part000 fresh_browser (sample_product ''a'' 45 (Some 36)) 2))
     = getTotals (fst (addItem fresh_browser (sample_product ''a'' 45 (Some 36)) 2))
   \<and> formatPrice_part000 (895 / 100) = formatPrice (895 / 100)
   \<and> getCollectionProducts_part000 initializeFallbackData ''heirloom-wooden''
     = getCollectionProducts initializeFallbackData ''heirloom-wooden''"
  using C10_copies_equal by simp

end
